theory Spec2Isabelle
  imports Main "HOL-Library.Word" "HOL-Library.Signed_Division"
begin

unbundle bit_operations_syntax

section \<open>Data model of the ARM next-address decoder\<close>

text \<open>
  The development embeds \<^verbatim>\<open>ARM_decode_table.c\<close>: the decoder dispatcher, the multiplexer
  \<^verbatim>\<open>arm_mux\<close> and the category handlers the multiplexer and the properties below reach.
  An \<^verbatim>\<open>unsigned int\<close> is a 32-bit word; an \<^verbatim>\<open>int\<close> is the same word read as two's
  complement (conversions between the two keep the bit pattern). \<^verbatim>\<open>>>\<close> on an \<^verbatim>\<open>int\<close> is
  the arithmetic shift, signed arithmetic wraps around, and a shift by 32, which the
  source reaches with a rotate amount of 0, gives 0 as the register-controlled shifts of
  the target processor do.
\<close>

type_synonym u32 = "32 word"

subsection \<open>The outcome value\<close>

text \<open>
  \<^verbatim>\<open>instr_next_addr_t\<close> has the members \<^verbatim>\<open>flag\<close> and \<^verbatim>\<open>address\<close>; its declaration
  and the flag constants are in \<^verbatim>\<open>instr_util.h\<close>. The source tests the flag as
  \<^verbatim>\<open>(retval.flag & (~INSTR_ADDR_UNPRED)) == INSTR_ADDR_ARM\<close>: the flag is a state tag with the
  UNPREDICTABLE bit or-ed in. The record keeps the tag in \<open>flag\<close> and the bit in \<open>unpred\<close>.
\<close>

datatype instr_addr_flag = INSTR_ADDR_UNDEF | INSTR_ADDR_ARM | INSTR_ADDR_THUMB

record instr_next_addr_t =
  flag :: instr_addr_flag
  unpred :: bool
  address :: u32

subsection \<open>The sub-type tag\<close>

text \<open>
  \<^verbatim>\<open>ARM_decode_extra_t\<close> is one closed C enumeration. Its enumerators are grouped here by
  their name prefix (and, for the data-processing tags, their operand form), one datatype
  per family, and the enumeration is the sum of the families; two enumerators are equal
  exactly when they have the same name. The listed enumerators are those the embedded
  functions mention, followed by the ones the source file adds itself.
\<close>

datatype arm_mux_extra =
    arm_mux_vbic_vmvn | arm_mux_wfe_wfi | arm_mux_vshrn_q_imm | arm_mux_vrshrn_q_imm
  | arm_mux_vshll_i_vmovl | arm_mux_vorr_i_vmov_i | arm_mux_lsl_i_mov | arm_mux_lsl_i_mov_pc
  | arm_mux_ror_i_rrx | arm_mux_vmovn_q | arm_mux_msr_r_pr | arm_mux_mrs_r_pr
  | arm_mux_msr_i_pr_hints | arm_mux_vorr_vmov_nm | arm_mux_vst_type | arm_mux_vld_type

datatype arm_bra_extra =
    arm_bra_b_lbl | arm_bra_bl_lbl | arm_bra_blx_lbl | arm_bra_bx_r | arm_bra_blx_r
  | arm_bra_bxj_r

datatype arm_div_extra = arm_div_sdiv | arm_div_udiv

datatype arm_cmac_extra =
    arm_cmac_mul | arm_cmac_mla | arm_cmac_mls | arm_cmac_smulw | arm_cmac_smlaw
  | arm_cmac_smul | arm_cmac_smla | arm_cmac_smmul | arm_cmac_smmla | arm_cmac_smmls
  | arm_cmac_smuad | arm_cmac_smusd | arm_cmac_smlad | arm_cmac_smlsd
  | arm_cmac_smlal16 | arm_cmac_smlal | arm_cmac_smull | arm_cmac_umaal | arm_cmac_umlal
  | arm_cmac_umull | arm_cmac_smlald | arm_cmac_smlsld

datatype arm_cdata_extra =
    arm_cdata_asr_imm | arm_cdata_lsr_imm | arm_cdata_lsl_imm | arm_cdata_mov_r
  | arm_cdata_ror_imm | arm_cdata_rrx_r | arm_cdata_asr_r | arm_cdata_lsl_r
  | arm_cdata_lsr_r | arm_cdata_ror_r
  | arm_cdata_cmn_r | arm_cdata_cmp_r | arm_cdata_teq_r | arm_cdata_tst_r
  | arm_cdata_adc_r | arm_cdata_add_r | arm_cdata_add_r_sp | arm_cdata_and_r
  | arm_cdata_bic_r | arm_cdata_eor_r | arm_cdata_mvn_r | arm_cdata_orr_r
  | arm_cdata_rsb_r | arm_cdata_rsc_r | arm_cdata_sbc_r | arm_cdata_sub_r
  | arm_cdata_sub_r_sp

datatype arm_ret_extra =
    arm_ret_asr_imm | arm_ret_lsr_imm | arm_ret_lsl_imm | arm_ret_mov_pc
  | arm_ret_ror_imm | arm_ret_rrx_pc
  | arm_ret_adc_r | arm_ret_add_r | arm_ret_and_r | arm_ret_bic_r | arm_ret_eor_r
  | arm_ret_mvn_r | arm_ret_orr_r | arm_ret_rsb_r | arm_ret_rsc_r | arm_ret_sbc_r
  | arm_ret_sub_r

datatype arm_exc_extra =
    arm_exc_eret | arm_exc_bkpt | arm_exc_hvc | arm_exc_smc | arm_exc_svc | arm_exc_udf
  | arm_exc_rfe | arm_exc_srs

datatype arm_vldste_extra =
    arm_vldste_vld1_all | arm_vldste_vld1_one | arm_vldste_vld2_all | arm_vldste_vld2_one
  | arm_vldste_vld3_all | arm_vldste_vld3_one | arm_vldste_vld4_all | arm_vldste_vld4_one
  | arm_vldste_vst1_one | arm_vldste_vst2_one | arm_vldste_vst3_one | arm_vldste_vst4_one
  | arm_vldste_vld1_mult | arm_vldste_vld2_mult | arm_vldste_vld3_mult
  | arm_vldste_vld4_mult | arm_vldste_vst1_mult | arm_vldste_vst2_mult
  | arm_vldste_vst3_mult | arm_vldste_vst4_mult

datatype arm_cdata_rshr_extra =
    arm_cdata_cmn_rshr | arm_cdata_cmp_rshr | arm_cdata_teq_rshr | arm_cdata_tst_rshr
  | arm_cdata_adc_rshr | arm_cdata_add_rshr | arm_cdata_and_rshr | arm_cdata_bic_rshr
  | arm_cdata_eor_rshr | arm_cdata_mvn_rshr | arm_cdata_orr_rshr | arm_cdata_rsb_rshr
  | arm_cdata_rsc_rshr | arm_cdata_sbc_rshr | arm_cdata_sub_rshr

datatype arm_cdata_imm_extra =
    arm_cdata_cmn_imm | arm_cdata_cmp_imm | arm_cdata_teq_imm | arm_cdata_tst_imm
  | arm_cdata_adc_imm | arm_cdata_add_imm | arm_cdata_add_imm_sp | arm_cdata_adr_lbla
  | arm_cdata_adr_lblb | arm_cdata_and_imm | arm_cdata_bic_imm | arm_cdata_eor_imm
  | arm_cdata_mov_imm | arm_cdata_mvn_imm | arm_cdata_orr_imm | arm_cdata_rsb_imm
  | arm_cdata_rsc_imm | arm_cdata_sbc_imm | arm_cdata_sub_imm | arm_cdata_sub_imm_sp

datatype arm_ret_imm_extra =
    arm_ret_adc_imm | arm_ret_add_imm | arm_ret_bic_imm | arm_ret_eor_imm | arm_ret_mov_imm
  | arm_ret_mvn_imm | arm_ret_rsb_imm | arm_ret_rsc_imm | arm_ret_sbc_imm | arm_ret_sub_imm

datatype arm_cmisc_extra =
    arm_cmisc_movw | arm_cmisc_movt | arm_cmisc_clz | arm_cmisc_bfc | arm_cmisc_bfi
  | arm_cmisc_rbit | arm_cmisc_rev | arm_cmisc_rev16 | arm_cmisc_revsh | arm_cmisc_sbfx
  | arm_cmisc_ubfx | arm_cmisc_sel | arm_cmisc_usad8 | arm_cmisc_usada8

datatype arm_pack_extra =
    arm_pack_pkh | arm_pack_sxtb | arm_pack_uxtb | arm_pack_sxtab | arm_pack_uxtab
  | arm_pack_sxtab16 | arm_pack_uxtab16 | arm_pack_sxtb16 | arm_pack_uxtb16 | arm_pack_sxth
  | arm_pack_sxtah | arm_pack_uxtah | arm_pack_uxth

datatype arm_par_extra =
    arm_par_qadd16 | arm_par_qsub16 | arm_par_sadd16 | arm_par_ssub16 | arm_par_shadd16
  | arm_par_shsub16 | arm_par_qadd8 | arm_par_qsub8 | arm_par_sadd8 | arm_par_shadd8
  | arm_par_shsub8 | arm_par_ssub8 | arm_par_qasx | arm_par_qsax | arm_par_sasx
  | arm_par_shasx | arm_par_shsax | arm_par_ssax | arm_par_uadd16 | arm_par_uhadd16
  | arm_par_uhsub16 | arm_par_uqadd16 | arm_par_uqsub16 | arm_par_usub16 | arm_par_uadd8
  | arm_par_uhadd8 | arm_par_uhsub8 | arm_par_uqadd8 | arm_par_uqsub8 | arm_par_usub8
  | arm_par_uasx | arm_par_uhasx | arm_par_uhsax | arm_par_uqasx | arm_par_uqsax
  | arm_par_usax

datatype arm_sat_extra =
    arm_sat_qadd | arm_sat_qdadd | arm_sat_qdsub | arm_sat_qsub | arm_sat_ssat | arm_sat_usat
  | arm_sat_ssat16 | arm_sat_usat16

datatype arm_cldstm_extra = arm_cldstm_pop_r | arm_cldstm_push_r

datatype arm_sync_extra =
    arm_sync_ldrex | arm_sync_ldrexb | arm_sync_ldrexh | arm_sync_ldrexd | arm_sync_strexd

datatype ARM_decode_extra_t =
    Mux arm_mux_extra
  | Bra arm_bra_extra
  | Div arm_div_extra
  | Cmac arm_cmac_extra
  | Cdata arm_cdata_extra
  | Ret arm_ret_extra
  | Exc arm_exc_extra
  | Vldste arm_vldste_extra
  | Cdata_rshr arm_cdata_rshr_extra
  | Cdata_imm arm_cdata_imm_extra
  | Ret_imm arm_ret_imm_extra
  | Cmisc arm_cmisc_extra
  | Pack arm_pack_extra
  | Par arm_par_extra
  | Sat arm_sat_extra
  | Cldstm arm_cldstm_extra
  | Sync arm_sync_extra
  | arm_extras_last

subsection \<open>The target state the handlers read\<close>

text \<open>
  The handlers read the global \<^verbatim>\<open>rpi2_reg_context\<close> (declared in \<^verbatim>\<open>rpi2.h\<close>), target
  memory through pointer dereferences, and a few hardware registers through helper
  functions of \<^verbatim>\<open>instr_util\<close>. All of it is one read-only argument of the model.
  \<^verbatim>\<open>rpi2_reg_context.storage[i]\<close> is \<open>storage t i\<close>; the union members
  \<^verbatim>\<open>reg.r13\<close>, \<^verbatim>\<open>reg.r14\<close> and \<^verbatim>\<open>reg.r15\<close> are \<open>storage t 13\<close>, \<open>storage t 14\<close> and
  \<open>storage t 15\<close>.
  The fields \<open>hw_SCR\<close>, \<open>hw_HCR\<close>, \<open>hw_elr_hyp\<close>, \<open>hw_security_state\<close> and
  \<open>hw_coproc_access\<close> are the values the helpers \<^verbatim>\<open>get_SCR()\<close>, \<^verbatim>\<open>get_HCR()\<close>,
  \<^verbatim>\<open>get_elr_hyp()\<close>, \<^verbatim>\<open>get_security_state()\<close> and \<^verbatim>\<open>check_coproc_access(n)\<close>
  return; \<open>tmp3_uninit\<close> is the indeterminate content of an automatic variable that
  \<^verbatim>\<open>arm_core_data_bit\<close> reads before assigning it on one path (\<^verbatim>\<open>arm_core_ldstrex\<close>
  has such a path for its own \<^verbatim>\<open>tmp3\<close>), and \<open>tmp2_uninit\<close> and \<open>tmp4_uninit\<close> are the
  same for the variables \<^verbatim>\<open>tmp2\<close> and \<^verbatim>\<open>tmp4\<close> of the handlers that read them
  unassigned. Some handlers index \<^verbatim>\<open>storage\<close> with a value that is not a register
  number; \<open>storage t i\<close> then stands for the word that read finds.
\<close>

record target =
  storage :: "nat \<Rightarrow> u32"
  cpsr :: u32
  spsr :: u32
  mem :: "u32 \<Rightarrow> 8 word"
  hw_SCR :: u32
  hw_HCR :: u32
  hw_elr_hyp :: u32
  hw_security_state :: u32
  hw_coproc_access :: "u32 \<Rightarrow> u32"
  tmp3_uninit :: u32
  tmp2_uninit :: u32
  tmp4_uninit :: u32



definition mem_read_u32 :: "target \<Rightarrow> u32 \<Rightarrow> u32" where
  \<comment> \<open>\<^verbatim>\<open>*((unsigned int *)(a))\<close>, little-endian\<close>
  "mem_read_u32 t a =
     ucast (mem t a) OR push_bit 8 (ucast (mem t (a + 1)))
       OR push_bit 16 (ucast (mem t (a + 2))) OR push_bit 24 (ucast (mem t (a + 3)))"

subsection \<open>Bit-field utilities and result builders of \<^verbatim>\<open>instr_util\<close>\<close>

definition bit_c :: "u32 \<Rightarrow> nat \<Rightarrow> u32" where
  \<comment> \<open>Modelled from the spec: \<^verbatim>\<open>bit(value, n)\<close> of \<^verbatim>\<open>instr_util\<close>, not in this file:
      "extract a single bit", as 0 or 1.\<close>
  "bit_c x n = (if bit x n then 1 else 0)"

definition bitrng :: "u32 \<Rightarrow> nat \<Rightarrow> nat \<Rightarrow> u32" where
  \<comment> \<open>Modelled from the spec: \<^verbatim>\<open>bitrng(value, hi, lo)\<close> of \<^verbatim>\<open>instr_util\<close>, not in this
      file: "extract an inclusive bit range", moved down to bit 0.\<close>
  "bitrng x hi lo = take_bit (Suc hi - lo) (drop_bit lo x)"

fun bits_gather :: "nat \<Rightarrow> u32 \<Rightarrow> u32 \<Rightarrow> u32 \<Rightarrow> u32" where
  "bits_gather 0 x m acc = acc"
| "bits_gather (Suc n) x m acc =
     bits_gather n x m (if bit m n then push_bit 1 acc OR bit_c x n else acc)"

definition bits_c :: "u32 \<Rightarrow> u32 \<Rightarrow> u32" where
  \<comment> \<open>Modelled from the spec: \<^verbatim>\<open>bits(value, mask)\<close> of \<^verbatim>\<open>instr_util\<close>, not in this
      file. The callers switch on the values 0 to 3 of a two-bit mask ("P and U",
      "P and W"): the bits selected by the mask, packed together at bit 0 in their order.\<close>
  "bits_c x m = bits_gather 32 x m 0"

definition sx32 :: "u32 \<Rightarrow> nat \<Rightarrow> nat \<Rightarrow> u32" where
  \<comment> \<open>Modelled from the spec: \<^verbatim>\<open>sx32(value, hi, lo)\<close> of \<^verbatim>\<open>instr_util\<close>, not in this
      file: "sign-extend a field" to 32 bits.\<close>
  "sx32 x hi lo = signed_take_bit (hi - lo) (drop_bit lo x)"

definition set_undef_addr :: instr_next_addr_t where
  \<comment> \<open>Modelled from the spec: result builder of \<^verbatim>\<open>instr_util\<close>, not in this file:
      "architecturally UNDEFINED"; the address is meaningless and is given the value of
      the linear sentinel.\<close>
  "set_undef_addr = \<lparr>flag = INSTR_ADDR_UNDEF, unpred = False, address = 0xffffffff\<rparr>"

definition set_arm_addr :: "u32 \<Rightarrow> instr_next_addr_t" where
  \<comment> \<open>Modelled from the spec: result builder of \<^verbatim>\<open>instr_util\<close>, not in this file:
      "jumps to an A32 address".\<close>
  "set_arm_addr a = \<lparr>flag = INSTR_ADDR_ARM, unpred = False, address = a\<rparr>"

definition set_thumb_addr :: "u32 \<Rightarrow> instr_next_addr_t" where
  \<comment> \<open>Modelled from the spec: result builder of \<^verbatim>\<open>instr_util\<close>, not in this file:
      "jumps to a Thumb address".\<close>
  "set_thumb_addr a = \<lparr>flag = INSTR_ADDR_THUMB, unpred = False, address = a\<rparr>"

definition set_unpred_addr :: "instr_next_addr_t \<Rightarrow> instr_next_addr_t" where
  \<comment> \<open>Modelled from the spec: result builder of \<^verbatim>\<open>instr_util\<close>, not in this file:
      overlays the UNPREDICTABLE flag "without discarding the underlying address/state".\<close>
  "set_unpred_addr r = r\<lparr>unpred := True\<rparr>"

definition set_addr_lin :: instr_next_addr_t where
  \<comment> \<open>the address is set to 0xffffffff and flag to INSTR_ADDR_ARM\<close>
  "set_addr_lin = \<lparr>flag = INSTR_ADDR_ARM, unpred = False, address = 0xffffffff\<rparr>"

definition will_branch :: "target \<Rightarrow> u32 \<Rightarrow> bool" where
  \<comment> \<open>Modelled from the spec: \<^verbatim>\<open>will_branch(instr)\<close> of \<^verbatim>\<open>instr_util\<close>, not in this
      file: whether the condition code in bits 31-28 of the instruction is satisfied by
      the N, Z, C, V flags (bits 31-28) of the current status word.\<close>
  "will_branch t instr =
     (let n = bit (cpsr t) 31; z = bit (cpsr t) 30; c = bit (cpsr t) 29; v = bit (cpsr t) 28;
          cond = bitrng instr 31 28
      in if cond = 0 then z
         else if cond = 1 then \<not> z
         else if cond = 2 then c
         else if cond = 3 then \<not> c
         else if cond = 4 then n
         else if cond = 5 then \<not> n
         else if cond = 6 then v
         else if cond = 7 then \<not> v
         else if cond = 8 then c \<and> \<not> z
         else if cond = 9 then \<not> c \<or> z
         else if cond = 10 then n = v
         else if cond = 11 then n \<noteq> v
         else if cond = 12 then \<not> z \<and> n = v
         else if cond = 13 then z \<or> n \<noteq> v
         else True)"

definition check_proc_mode :: "target \<Rightarrow> u32 \<Rightarrow> u32 \<Rightarrow> u32 \<Rightarrow> u32 \<Rightarrow> bool" where
  \<comment> \<open>Modelled from the spec: \<^verbatim>\<open>check_proc_mode(m1, m2, m3, m4)\<close> of \<^verbatim>\<open>instr_util\<close>, not
      in this file: whether the current processor mode (bits 4-0 of the status word) is
      one of the given modes; an argument 0 names no mode.\<close>
  "check_proc_mode t m1 m2 m3 m4 =
     (let m = cpsr t AND 0x1f
      in (m1 \<noteq> 0 \<and> m = m1) \<or> (m2 \<noteq> 0 \<and> m = m2) \<or> (m3 \<noteq> 0 \<and> m = m3) \<or> (m4 \<noteq> 0 \<and> m = m4))"

text \<open>The processor mode numbers of \<^verbatim>\<open>instr_util.h\<close>, as the architecture defines them.\<close>

definition INSTR_PMODE_USR :: u32 where "INSTR_PMODE_USR = 0x10"
definition INSTR_PMODE_FIQ :: u32 where "INSTR_PMODE_FIQ = 0x11"
definition INSTR_PMODE_MON :: u32 where "INSTR_PMODE_MON = 0x16"
definition INSTR_PMODE_HYP :: u32 where "INSTR_PMODE_HYP = 0x1a"
definition INSTR_PMODE_SYS :: u32 where "INSTR_PMODE_SYS = 0x1f"

section \<open>The dispatcher\<close>

text \<open>
  The decode table is generated data (\<^verbatim>\<open>ARM_decode_table_data.h\<close>) and is an argument of
  the model; a \<^verbatim>\<open>decoder\<close> function pointer is a function of the target state, the
  instruction and the sub-type tag. The member \<^verbatim>\<open>mask\<close> is the field \<open>mask_c\<close>.
\<close>

record ARM_dec_tbl_entry_t =
  data :: u32
  mask_c :: u32
  extra :: ARM_decode_extra_t
  decoder :: "target \<Rightarrow> u32 \<Rightarrow> ARM_decode_extra_t \<Rightarrow> instr_next_addr_t"

function ARM_decoder_dispatch_loop ::
  "ARM_dec_tbl_entry_t list \<Rightarrow> target \<Rightarrow> u32 \<Rightarrow> nat \<Rightarrow> instr_next_addr_t \<Rightarrow> instr_next_addr_t"
where
  "ARM_decoder_dispatch_loop tbl t instr i retval =
     (if i < length tbl then
        (if instr AND mask_c (tbl ! i) = data (tbl ! i)
         then decoder (tbl ! i) t instr (extra (tbl ! i))
         else ARM_decoder_dispatch_loop tbl t instr (i + 1) retval)
      else retval)"
  by pat_completeness auto
termination
  by (relation "measure (\<lambda>(tbl, t, instr, i, retval). length tbl - i)") auto

declare ARM_decoder_dispatch_loop.simps [simp del]

definition ARM_decoder_dispatch ::
  "ARM_dec_tbl_entry_t list \<Rightarrow> target \<Rightarrow> u32 \<Rightarrow> instr_next_addr_t" where
  "ARM_decoder_dispatch tbl t instr = ARM_decoder_dispatch_loop tbl t instr 0 set_undef_addr"

section \<open>Branch handler\<close>

definition arm_branch :: "target \<Rightarrow> u32 \<Rightarrow> ARM_decode_extra_t \<Rightarrow> instr_next_addr_t" where
  "arm_branch t instr ext =
     (if will_branch t instr then
        (if ext = Bra arm_bra_b_lbl \<or> ext = Bra arm_bra_bl_lbl then
           set_arm_addr (storage t 15 + 8 + push_bit 2 (sx32 instr 23 0))
         else if ext = Bra arm_bra_blx_lbl then
           set_thumb_addr
             (storage t 15 + 8 + (push_bit 2 (sx32 instr 23 0) OR push_bit 1 (bit_c instr 24)))
         else if ext = Bra arm_bra_bx_r \<or> ext = Bra arm_bra_blx_r \<or> ext = Bra arm_bra_bxj_r then
           (let a = storage t (unat (bitrng instr 3 0));
                retval =
                  (if bit_c a 0 \<noteq> 0 then set_thumb_addr (a AND push_bit 1 (NOT 0))
                   else if bit_c a 1 = 0 then set_arm_addr (a AND push_bit 2 (NOT 0))
                   else set_unpred_addr set_addr_lin)
            in if bitrng instr 3 0 = 15 then set_unpred_addr retval else retval)
         else set_undef_addr)
      else set_addr_lin)"

section \<open>Divide handler\<close>

definition c_sdiv :: "u32 \<Rightarrow> u32 \<Rightarrow> u32" where
  \<comment> \<open>\<^verbatim>\<open>/\<close> on two \<^verbatim>\<open>int\<close>s: the quotient truncated towards zero, kept in 32 bits\<close>
  "c_sdiv a b = word_of_int (sint a sdiv sint b)"

definition arm_core_data_div_sdiv :: "target \<Rightarrow> u32 \<Rightarrow> u32 \<Rightarrow> instr_next_addr_t" where
  \<comment> \<open>the branch \<^verbatim>\<open>extra == arm_div_sdiv\<close>; \<open>tmp2\<close> and \<open>tmp3\<close> are the numbers of Rm and Rn\<close>
  "arm_core_data_div_sdiv t tmp2 tmp3 =
     (let stmp2 = storage t (unat tmp2) + (if tmp2 = 15 then 8 else 0);
          stmp3 = storage t (unat tmp3) + (if tmp3 = 15 then 8 else 0)
      in if stmp2 = 0 then set_arm_addr 0
         else if bit_c stmp3 31 = bit_c stmp2 31 then set_arm_addr (c_sdiv stmp3 stmp2)
         else set_arm_addr (signed_drop_bit 1 (c_sdiv (push_bit 1 stmp3) stmp2 + 1)))"

definition arm_core_data_div_udiv :: "target \<Rightarrow> u32 \<Rightarrow> u32 \<Rightarrow> u32 \<Rightarrow> instr_next_addr_t" where
  \<comment> \<open>the branch for \<^verbatim>\<open>arm_div_udiv\<close>; \<open>tmp1\<close> is still the number of Rd when the
      divisor is zero, and the last assignment to \<^verbatim>\<open>retval\<close> is the one returned\<close>
  "arm_core_data_div_udiv t tmp1 tmp2 tmp3 =
     (let tmp4 = (if tmp2 = 15 then 8 else 0);
          tmp2' = storage t (unat tmp2) + tmp4;
          tmp4' = (if tmp3 = 15 then tmp4 + 8 else tmp4);
          tmp3' = storage t (unat tmp3) + tmp4';
          tmp1' = (if tmp2' = 0 then tmp1 else tmp3' div tmp2')
      in set_arm_addr tmp1')"

definition arm_core_data_div :: "target \<Rightarrow> u32 \<Rightarrow> ARM_decode_extra_t \<Rightarrow> instr_next_addr_t" where
  "arm_core_data_div t instr ext =
     (let tmp1 = bitrng instr 19 16; tmp2 = bitrng instr 11 8; tmp3 = bitrng instr 3 0
      in if tmp1 = 15 then
           (if ext = Div arm_div_sdiv then arm_core_data_div_sdiv t tmp2 tmp3
            else arm_core_data_div_udiv t tmp1 tmp2 tmp3)
         else if tmp2 = 15 \<or> tmp3 = 15 then set_unpred_addr set_addr_lin
         else set_addr_lin)"

section \<open>Multiply and multiply-accumulate handler\<close>







section \<open>Data-processing handler, register operand\<close>

definition arm_core_data_std_r_operands :: "target \<Rightarrow> u32 \<Rightarrow> u32 \<times> u32" where
  \<comment> \<open>\<^verbatim>\<open>tmp1\<close> (Rn) and \<^verbatim>\<open>tmp2\<close> (the shifted Rm) after the shift switch; the ROR
      branch reuses \<^verbatim>\<open>tmp1\<close> for its mask and merges with \<^verbatim>\<open>||\<close>\<close>
  "arm_core_data_std_r_operands t instr =
     (let rn = bitrng instr 19 16;
          tmp1 = storage t (unat rn) + (if rn = 15 then 8 else 0);
          rm = bitrng instr 3 0;
          tmp2 = storage t (unat rm) + (if rm = 15 then 8 else 0);
          tmp3 = bitrng instr 11 7;
          sh = bitrng instr 6 5
      in if sh = 0 then (tmp1, push_bit (unat tmp3) tmp2)
         else if sh = 1 then (tmp1, if tmp3 = 0 then 0 else drop_bit (unat tmp3) tmp2)
         else if sh = 2 then
           (tmp1, signed_drop_bit (unat (if tmp3 = 0 then 31 else tmp3)) tmp2)
         else if sh = 3 then
           (if tmp3 = 0 then (tmp1, drop_bit 1 tmp2 OR push_bit 31 (bit_c (cpsr t) 29))
            else
              (let tmp4 = push_bit (32 - unat tmp3) tmp2;
                   tmp2' = drop_bit (unat tmp3) tmp2;
                   tmp1' = push_bit (unat tmp3) (NOT 0)
               in (tmp1', if (tmp2' AND NOT tmp1') \<noteq> 0 \<or> (tmp4 AND tmp1') \<noteq> 0 then 1 else 0)))
         else (tmp1, tmp2))"

definition arm_core_data_std_r_alu ::
  "target \<Rightarrow> ARM_decode_extra_t \<Rightarrow> u32 \<Rightarrow> u32 \<Rightarrow> instr_next_addr_t" where
  \<comment> \<open>the first \<^verbatim>\<open>switch (extra)\<close> of the Rd = PC branch\<close>
  "arm_core_data_std_r_alu t ext tmp1 tmp2 =
     (if ext = Cdata arm_cdata_adc_r \<or> ext = Ret arm_ret_adc_r then
        set_arm_addr (tmp1 + tmp2 + bit_c (cpsr t) 29)
      else if ext = Cdata arm_cdata_add_r \<or> ext = Cdata arm_cdata_add_r_sp
              \<or> ext = Ret arm_ret_add_r then
        set_arm_addr (tmp1 + tmp2)
      else if ext = Cdata arm_cdata_and_r \<or> ext = Ret arm_ret_and_r then
        set_arm_addr (tmp1 AND tmp2)
      else if ext = Cdata arm_cdata_bic_r \<or> ext = Ret arm_ret_bic_r then
        set_arm_addr (tmp1 AND NOT tmp2)
      else if ext = Cdata arm_cdata_eor_r \<or> ext = Ret arm_ret_eor_r then
        set_arm_addr (tmp1 XOR tmp2)
      else if ext = Cdata arm_cdata_mvn_r \<or> ext = Ret arm_ret_mvn_r then
        set_arm_addr (NOT tmp2)
      else if ext = Cdata arm_cdata_orr_r \<or> ext = Ret arm_ret_orr_r then
        set_arm_addr (tmp1 AND tmp2)
      else if ext = Cdata arm_cdata_rsb_r \<or> ext = Ret arm_ret_rsb_r then
        set_arm_addr (tmp2 - tmp1)
      else if ext = Cdata arm_cdata_rsc_r \<or> ext = Ret arm_ret_rsc_r then
        set_arm_addr (NOT tmp1 + tmp2 + bit_c (cpsr t) 29)
      else if ext = Cdata arm_cdata_sbc_r \<or> ext = Ret arm_ret_sbc_r then
        set_arm_addr (tmp1 + NOT tmp2 + bit_c (cpsr t) 29)
      else if ext = Cdata arm_cdata_sub_r \<or> ext = Cdata arm_cdata_sub_r_sp
              \<or> ext = Ret arm_ret_sub_r then
        set_arm_addr (tmp1 - tmp2)
      else set_undef_addr)"

definition arm_core_data_std_r_ret ::
  "target \<Rightarrow> u32 \<Rightarrow> ARM_decode_extra_t \<Rightarrow> instr_next_addr_t \<Rightarrow> instr_next_addr_t" where
  \<comment> \<open>the second \<^verbatim>\<open>switch (extra)\<close>: "check for UNPREDICTABLE and UNDEFINED"\<close>
  "arm_core_data_std_r_ret t instr ext retval =
     (if ext = Ret arm_ret_adc_r \<or> ext = Ret arm_ret_add_r \<or> ext = Ret arm_ret_and_r
         \<or> ext = Ret arm_ret_bic_r \<or> ext = Ret arm_ret_eor_r \<or> ext = Ret arm_ret_mvn_r
         \<or> ext = Ret arm_ret_orr_r \<or> ext = Ret arm_ret_rsb_r \<or> ext = Ret arm_ret_rsc_r
         \<or> ext = Ret arm_ret_sbc_r \<or> ext = Ret arm_ret_sub_r then
        (if bit_c instr 20 = 0 then
           (let tmp3 = address retval
            in if tmp3 AND 1 \<noteq> 0 then set_thumb_addr tmp3
               else if tmp3 AND 3 = 0 then set_arm_addr tmp3
               else set_unpred_addr (set_thumb_addr tmp3))
         else
           (let m = cpsr t AND 0x1f
            in if m = 0x10 \<or> m = 0x1f then set_unpred_addr (set_arm_addr 0x8)
               else if m = 0x1a then set_undef_addr
               else if bit_c (spsr t) 5 \<noteq> 0 then set_thumb_addr (address retval)
               else retval))
      else retval)"

definition arm_core_data_std_r ::
  "target \<Rightarrow> u32 \<Rightarrow> ARM_decode_extra_t \<Rightarrow> instr_next_addr_t" where
  "arm_core_data_std_r t instr ext =
     (if ext = Cdata arm_cdata_cmn_r \<or> ext = Cdata arm_cdata_cmp_r
         \<or> ext = Cdata arm_cdata_teq_r \<or> ext = Cdata arm_cdata_tst_r then set_addr_lin
      else if bitrng instr 15 12 = 15 then
        (let (tmp1, tmp2) = arm_core_data_std_r_operands t instr
         in arm_core_data_std_r_ret t instr ext (arm_core_data_std_r_alu t ext tmp1 tmp2))
      else set_addr_lin)"

section \<open>Single-register load/store handler\<close>





section \<open>Shift and move handler\<close>

definition ror_merge :: "u32 \<Rightarrow> u32 \<Rightarrow> u32" where
  \<comment> \<open>the rotate as the source writes it, \<open>tmp2\<close> being the amount:
      \<^verbatim>\<open>tmp4 = bitrng(tmp1, tmp2, 0); tmp4 <<= (32 - tmp2); tmp3 = tmp1 >> tmp2;\<close>
      \<^verbatim>\<open>tmp2 = (~0) << tmp2; tmp3 = (tmp3 & (~tmp2)) || (tmp4 & tmp2);\<close>\<close>
  "ror_merge tmp1 tmp2 =
     (let tmp4 = push_bit (32 - unat tmp2) (bitrng tmp1 (unat tmp2) 0);
          tmp3 = drop_bit (unat tmp2) tmp1;
          msk = push_bit (unat tmp2) (NOT 0)
      in if (tmp3 AND NOT msk) \<noteq> 0 \<or> (tmp4 AND msk) \<noteq> 0 then 1 else 0)"

definition arm_core_data_bit_tmp3 :: "target \<Rightarrow> u32 \<Rightarrow> ARM_decode_extra_t \<Rightarrow> u32" where
  \<comment> \<open>\<^verbatim>\<open>tmp3\<close> after the block \<^verbatim>\<open>if (bitrng(instr, 15, 12) == 15)\<close>: the operation result;
      the register number of Rn when no case matches; unassigned when Rd is not PC\<close>
  "arm_core_data_bit_tmp3 t instr ext =
     (if bitrng instr 15 12 = 15 then
        (let rn = bitrng instr 3 0;
             tmp1 = storage t (unat rn) + (if rn = 15 then 8 else 0);
             imm = bitrng instr 11 7;
             rm = bitrng instr 11 8;
             rmv = storage t (unat rm) + (if rm = 15 then 8 else 0)
         in if ext = Ret arm_ret_asr_imm \<or> ext = Cdata arm_cdata_asr_imm then
              signed_drop_bit (unat imm) tmp1
            else if ext = Ret arm_ret_lsr_imm \<or> ext = Cdata arm_cdata_lsr_imm then
              drop_bit (unat imm) tmp1
            else if ext = Ret arm_ret_lsl_imm \<or> ext = Cdata arm_cdata_lsl_imm then
              push_bit (unat imm) tmp1
            else if ext = Ret arm_ret_mov_pc \<or> ext = Cdata arm_cdata_mov_r then tmp1
            else if ext = Ret arm_ret_ror_imm \<or> ext = Cdata arm_cdata_ror_imm then
              ror_merge tmp1 imm
            else if ext = Ret arm_ret_rrx_pc \<or> ext = Cdata arm_cdata_rrx_r then
              drop_bit 1 tmp1 OR push_bit 31 (bit_c (cpsr t) 29)
            else if ext = Cdata arm_cdata_asr_r then
              signed_drop_bit (unat (rmv AND 0x1f)) tmp1
            else if ext = Cdata arm_cdata_lsl_r then
              (if rmv > 31 then 0 else push_bit (unat (rmv AND 0x1f)) tmp1)
            else if ext = Cdata arm_cdata_lsr_r then
              (if rmv > 31 then 0 else drop_bit (unat (rmv AND 0x1f)) tmp1)
            else if ext = Cdata arm_cdata_ror_r then
              (if rmv AND 0x1f = 0 then tmp1 else ror_merge tmp1 (rmv AND 0x1f))
            else rn)
      else tmp3_uninit t)"

definition arm_core_data_bit_ret :: "target \<Rightarrow> u32 \<Rightarrow> u32 \<Rightarrow> instr_next_addr_t" where
  \<comment> \<open>second \<^verbatim>\<open>switch (extra)\<close>, the cases \<^verbatim>\<open>arm_ret_...\<close>; \<^verbatim>\<open>retval\<close> is still the
      initial \<^verbatim>\<open>set_undef_addr()\<close> when no branch assigns it\<close>
  "arm_core_data_bit_ret t instr tmp3 =
     (if bit_c instr 20 = 0 then
        (if tmp3 AND 1 \<noteq> 0 then set_thumb_addr tmp3
         else if tmp3 AND 3 = 0 then set_arm_addr tmp3
         else set_unpred_addr (set_thumb_addr tmp3))
      else
        (let m = cpsr t AND 0x1f
         in if m = 0x10 \<or> m = 0x1f then set_unpred_addr (set_arm_addr 0x8)
            else if m = 0x1a then set_undef_addr
            else if bit_c (spsr t) 5 \<noteq> 0 then set_thumb_addr tmp3
            else set_undef_addr))"

definition arm_core_data_bit_reg :: "u32 \<Rightarrow> u32 \<Rightarrow> instr_next_addr_t" where
  \<comment> \<open>second \<^verbatim>\<open>switch (extra)\<close>, the cases \<^verbatim>\<open>arm_cdata_asr_r\<close>, \<^verbatim>\<open>arm_cdata_lsl_r\<close>,
      \<^verbatim>\<open>arm_cdata_lsr_r\<close> and \<^verbatim>\<open>arm_cdata_ror_r\<close>\<close>
  "arm_core_data_bit_reg instr tmp3 =
     (if bitrng instr 15 12 = 15 then
        set_unpred_addr
          (if tmp3 AND 1 \<noteq> 0 then set_thumb_addr tmp3
           else if tmp3 AND 3 = 0 then set_arm_addr tmp3
           else set_thumb_addr tmp3)
      else set_addr_lin)"

definition arm_core_data_bit :: "target \<Rightarrow> u32 \<Rightarrow> ARM_decode_extra_t \<Rightarrow> instr_next_addr_t" where
  "arm_core_data_bit t instr ext =
     (let tmp3 = arm_core_data_bit_tmp3 t instr ext
      in if ext = Ret arm_ret_asr_imm \<or> ext = Ret arm_ret_lsr_imm \<or> ext = Ret arm_ret_lsl_imm
            \<or> ext = Ret arm_ret_ror_imm \<or> ext = Ret arm_ret_rrx_pc
            \<or> ext = Ret arm_ret_mov_pc then
           arm_core_data_bit_ret t instr tmp3
         else if ext = Cdata arm_cdata_asr_r \<or> ext = Cdata arm_cdata_lsl_r
                 \<or> ext = Cdata arm_cdata_lsr_r \<or> ext = Cdata arm_cdata_ror_r then
           arm_core_data_bit_reg instr tmp3
         else set_addr_lin)"

section \<open>VFP element and structure load/store handler\<close>

definition arm_vfp_ldst_elem_und :: "u32 \<Rightarrow> ARM_decode_extra_t \<Rightarrow> nat" where
  \<comment> \<open>the counter \<^verbatim>\<open>und\<close> after \<^verbatim>\<open>switch (extra)\<close>; \<^verbatim>\<open>tmp3\<close> is the align, index_align
      or size field of each case. The writeback computation of the source follows a
      \<^verbatim>\<open>break\<close> inside the last case and is never executed, and \<^verbatim>\<open>tmp4\<close> is not read
      after the switch.\<close>
  "arm_vfp_ldst_elem_und instr ext =
     (let b = (\<lambda>c. if c then 1 else 0 :: nat);
          typ = bitrng instr 11 8; sz = bitrng instr 11 10
      in if ext = Vldste arm_vldste_vld1_mult \<or> ext = Vldste arm_vldste_vst1_mult then
           (let tmp3 = bitrng instr 5 4
            in if typ = 6 \<or> typ = 7 then b (tmp3 AND 2 \<noteq> 0)
               else if typ = 10 then b (tmp3 = 3)
               else 0)
         else if ext = Vldste arm_vldste_vld2_mult \<or> ext = Vldste arm_vldste_vst2_mult then
           (let tmp3 = bitrng instr 5 4
            in b (bitrng instr 7 6 = 3) + (if typ = 8 \<or> typ = 9 then b (tmp3 = 3) else 0))
         else if ext = Vldste arm_vldste_vld3_mult \<or> ext = Vldste arm_vldste_vst3_mult then
           b (bit_c instr 5 \<noteq> 0) + b (bitrng instr 7 6 = 3)
         else if ext = Vldste arm_vldste_vld4_mult \<or> ext = Vldste arm_vldste_vst4_mult then
           b (bitrng instr 7 6 = 3)
         else if ext = Vldste arm_vldste_vld1_one \<or> ext = Vldste arm_vldste_vst1_one then
           (let tmp3 = bitrng instr 7 4
            in if sz = 0 then b (tmp3 AND 1 \<noteq> 0)
               else if sz = 1 then b (tmp3 AND 2 \<noteq> 0)
               else if sz = 2 then
                 b (tmp3 AND 4 \<noteq> 0) + b (tmp3 AND 3 = 1 \<or> tmp3 AND 3 = 2)
               else 0)
         else if ext = Vldste arm_vldste_vld2_one \<or> ext = Vldste arm_vldste_vst2_one then
           (let tmp3 = bitrng instr 7 4
            in if sz = 2 then b (tmp3 AND 2 \<noteq> 0) else 0)
         else if ext = Vldste arm_vldste_vld3_one \<or> ext = Vldste arm_vldste_vst3_one then
           (let tmp3 = bitrng instr 7 4
            in if sz = 0 \<or> sz = 1 then b (tmp3 AND 1 \<noteq> 0)
               else if sz = 2 then b (tmp3 AND 3 \<noteq> 0)
               else 0)
         else if ext = Vldste arm_vldste_vld4_one \<or> ext = Vldste arm_vldste_vst4_one then
           (let tmp3 = bitrng instr 7 4
            in if sz = 2 then b (tmp3 AND 3 \<noteq> 0) else 0)
         else if ext = Vldste arm_vldste_vld1_all then
           (let tmp3 = bitrng instr 7 6
            in b (tmp3 = 3) + b (tmp3 = 0 \<and> bit_c instr 4 \<noteq> 0))
         else if ext = Vldste arm_vldste_vld2_all then b (bitrng instr 7 6 = 3)
         else if ext = Vldste arm_vldste_vld3_all then
           b (bitrng instr 7 6 = 3 \<or> bit_c instr 4 \<noteq> 0)
         else if ext = Vldste arm_vldste_vld4_all then
           b (bitrng instr 7 6 = 3 \<and> bit_c instr 4 = 0)
         else 0)"

definition arm_vfp_ldst_elem :: "target \<Rightarrow> u32 \<Rightarrow> ARM_decode_extra_t \<Rightarrow> instr_next_addr_t" where
  "arm_vfp_ldst_elem t instr ext =
     (let retval = set_undef_addr;
          und = arm_vfp_ldst_elem_und instr ext;
          unp = (0 :: nat)
      in if und \<noteq> 0 then set_undef_addr
         else if unp \<noteq> 0 then set_unpred_addr retval
         else retval)"

section \<open>The multiplexer\<close>

definition arm_mux_vorr_i_vmov_i_case :: "u32 \<Rightarrow> instr_next_addr_t" where
  \<comment> \<open>\<^verbatim>\<open>case arm_mux_vorr_i_vmov_i\<close>\<close>
  "arm_mux_vorr_i_vmov_i_case instr =
     (if bit_c instr 6 = 1 \<and> bit_c instr 12 = 0 then
        (if bit_c instr 7 = 0 \<and> bitrng instr 21 19 = 0 then
           (if bit_c instr 5 = 0 \<and> bit_c instr 8 = 1 \<and> bitrng instr 11 10 \<noteq> 3
            then set_addr_lin
            else if bit_c instr 8 = 0 \<or> bitrng instr 11 10 = 3 then set_addr_lin
            else set_undef_addr)
         else
           (if bit_c instr 6 = 1 \<and> bit_c instr 0 = 0 then set_addr_lin
            else set_undef_addr))
      else set_undef_addr)"

definition arm_mux_lsl_i_mov_case ::
  "target \<Rightarrow> u32 \<Rightarrow> ARM_decode_extra_t \<Rightarrow> instr_next_addr_t" where
  \<comment> \<open>\<^verbatim>\<open>case arm_mux_lsl_i_mov: case arm_mux_lsl_i_mov_pc:\<close>\<close>
  "arm_mux_lsl_i_mov_case t instr ext =
     (if bitrng instr 11 7 = 0 then
        (if ext = Mux arm_mux_lsl_i_mov then arm_core_data_bit t instr (Cdata arm_cdata_mov_r)
         else if bit_c instr 20 = 1 then arm_core_data_bit t instr (Ret arm_ret_mov_pc)
         else arm_core_data_bit t instr (Cdata arm_cdata_mov_r))
      else
        (if ext = Mux arm_mux_lsl_i_mov then arm_core_data_bit t instr (Cdata arm_cdata_lsl_imm)
         else if bit_c instr 20 = 1 then arm_core_data_bit t instr (Ret arm_ret_lsl_imm)
         else arm_core_data_bit t instr (Cdata arm_cdata_lsl_imm)))"

definition arm_mux_msr_r_pr_case :: "target \<Rightarrow> u32 \<Rightarrow> instr_next_addr_t" where
  \<comment> \<open>\<^verbatim>\<open>case arm_mux_msr_r_pr\<close>\<close>
  "arm_mux_msr_r_pr_case t instr =
     (if bitrng (cpsr t) 4 0 = 16 then
        (if bit_c instr 22 = 1 then set_unpred_addr set_addr_lin
         else if bitrng instr 19 18 = 0 then set_unpred_addr set_addr_lin
         else if bitrng instr 3 0 = 15 then set_unpred_addr set_addr_lin
         else set_addr_lin)
      else if bitrng (cpsr t) 4 0 = 31 then
        (let tmp1 = storage t (unat (bitrng instr 3 0)) AND 0x1f
         in if tmp1 \<noteq> 16 \<and> tmp1 \<noteq> 31 then set_unpred_addr set_addr_lin
            else if bitrng instr 19 16 = 0 then set_unpred_addr set_addr_lin
            else if bitrng instr 3 0 = 15 then set_unpred_addr set_addr_lin
            else set_addr_lin)
      else
        (if bitrng instr 19 16 = 0 then set_unpred_addr set_addr_lin
         else if bitrng instr 3 0 = 15 then set_unpred_addr set_addr_lin
         else set_addr_lin))"

definition arm_mux_mrs_r_pr_case :: "target \<Rightarrow> u32 \<Rightarrow> instr_next_addr_t" where
  \<comment> \<open>\<^verbatim>\<open>case arm_mux_mrs_r_pr\<close>; the assignments to \<^verbatim>\<open>retval.address\<close> and
      \<^verbatim>\<open>retval.flag\<close> are record updates of the linear outcome\<close>
  "arm_mux_mrs_r_pr_case t instr =
     (let retval = set_addr_lin;
          tmp1 = bitrng (cpsr t) 4 0 AND 0x1f
      in if tmp1 = 16 then
           (if bitrng instr 11 8 = 15 then
              set_unpred_addr
                (if bit_c instr 22 = 0
                 then retval\<lparr>address := cpsr t AND 0xf80f0000, flag := INSTR_ADDR_ARM,
                        unpred := False\<rparr>
                 else retval)
            else retval)
         else if tmp1 = 31 then
           (if bitrng instr 11 8 = 15 then
              set_unpred_addr
                (if bit_c instr 22 = 0
                 then retval\<lparr>address := cpsr t AND 0xf8ff03df, flag := INSTR_ADDR_ARM,
                        unpred := False\<rparr>
                 else retval)
            else retval)
         else
           (if bitrng instr 11 8 = 15 then
              set_unpred_addr
                (if bit_c instr 22 = 0
                 then retval\<lparr>address := cpsr t AND 0xf8ff03df, flag := INSTR_ADDR_ARM,
                        unpred := False\<rparr>
                 else retval\<lparr>address := spsr t, flag := INSTR_ADDR_ARM, unpred := False\<rparr>)
            else retval))"

definition arm_mux_msr_i_pr_hints_case :: "target \<Rightarrow> u32 \<Rightarrow> instr_next_addr_t" where
  \<comment> \<open>\<^verbatim>\<open>case arm_mux_msr_i_pr_hints\<close>\<close>
  "arm_mux_msr_i_pr_hints_case t instr =
     (if bitrng instr 19 16 \<noteq> 0 then
        (if bitrng (cpsr t) 4 0 = 16 then
           (if bit_c instr 22 = 1 then set_unpred_addr set_addr_lin else set_addr_lin)
         else if bitrng (cpsr t) 4 0 = 31 then
           (let tmp1 = storage t (unat (bitrng instr 3 0)) AND 0x1f;
                retval = (if tmp1 \<noteq> 16 \<and> tmp1 \<noteq> 31 then set_unpred_addr set_addr_lin
                          else set_addr_lin)
            in if bit_c instr 22 = 1 then set_unpred_addr retval else retval)
         else set_addr_lin)
      else
        (let h = bitrng instr 7 0
         in if h = 0 \<or> h = 1 \<or> h = 2 \<or> h = 3 \<or> h = 4 then set_addr_lin
            else if h AND 0xf0 \<noteq> 0xf0 then set_undef_addr
            else set_addr_lin))"

definition arm_mux_vst_type_case :: "target \<Rightarrow> u32 \<Rightarrow> instr_next_addr_t" where
  \<comment> \<open>\<^verbatim>\<open>case arm_mux_vst_type\<close>\<close>
  "arm_mux_vst_type_case t instr =
     (let typ = bitrng instr 11 8
      in if typ = 2 \<or> typ = 6 \<or> typ = 7 \<or> typ = 10 then
           arm_vfp_ldst_elem t instr (Vldste arm_vldste_vst1_mult)
         else if typ = 3 \<or> typ = 8 \<or> typ = 9 then
           arm_vfp_ldst_elem t instr (Vldste arm_vldste_vst2_mult)
         else if typ = 4 \<or> typ = 5 then
           arm_vfp_ldst_elem t instr (Vldste arm_vldste_vst3_mult)
         else if typ = 0 \<or> typ = 1 then
           arm_vfp_ldst_elem t instr (Vldste arm_vldste_vst4_mult)
         else set_undef_addr)"

definition arm_mux_vld_type_case :: "target \<Rightarrow> u32 \<Rightarrow> instr_next_addr_t" where
  \<comment> \<open>\<^verbatim>\<open>case arm_mux_vld_type\<close>\<close>
  "arm_mux_vld_type_case t instr =
     (let typ = bitrng instr 11 8
      in if typ = 2 \<or> typ = 6 \<or> typ = 7 \<or> typ = 10 then
           arm_vfp_ldst_elem t instr (Vldste arm_vldste_vld1_mult)
         else if typ = 3 \<or> typ = 8 \<or> typ = 9 then
           arm_vfp_ldst_elem t instr (Vldste arm_vldste_vld2_mult)
         else if typ = 4 \<or> typ = 5 then
           arm_vfp_ldst_elem t instr (Vldste arm_vldste_vld3_mult)
         else if typ = 0 \<or> typ = 1 then
           arm_vfp_ldst_elem t instr (Vldste arm_vldste_vld4_mult)
         else set_undef_addr)"

definition arm_mux_switch :: "target \<Rightarrow> u32 \<Rightarrow> ARM_decode_extra_t \<Rightarrow> instr_next_addr_t" where
  \<comment> \<open>\<^verbatim>\<open>retval\<close> after \<^verbatim>\<open>switch (extra)\<close>, before the condition check\<close>
  "arm_mux_switch t instr ext =
     (if ext = Mux arm_mux_vbic_vmvn then
        (if bitrng instr 11 9 \<noteq> 7 then set_addr_lin else set_undef_addr)
      else if ext = Mux arm_mux_wfe_wfi then
        (if bitrng instr 7 0 = 2 \<or> bitrng instr 7 0 = 2 then set_addr_lin else set_undef_addr)
      else if ext = Mux arm_mux_vshrn_q_imm then
        (if bit_c instr 0 = 0 then set_addr_lin else set_undef_addr)
      else if ext = Mux arm_mux_vrshrn_q_imm then
        (if bit_c instr 0 = 0 then set_addr_lin else set_undef_addr)
      else if ext = Mux arm_mux_vshll_i_vmovl then
        (if bit_c instr 12 = 0 then
           (if bitrng instr 21 19 = 0 then set_undef_addr else set_addr_lin)
         else set_undef_addr)
      else if ext = Mux arm_mux_vorr_i_vmov_i then arm_mux_vorr_i_vmov_i_case instr
      else if ext = Mux arm_mux_lsl_i_mov \<or> ext = Mux arm_mux_lsl_i_mov_pc then
        arm_mux_lsl_i_mov_case t instr ext
      else if ext = Mux arm_mux_ror_i_rrx then
        (if bitrng instr 11 7 = 0 then arm_core_data_bit t instr (Cdata arm_cdata_rrx_r)
         else arm_core_data_bit t instr (Cdata arm_cdata_ror_imm))
      else if ext = Mux arm_mux_vmovn_q then
        (if bitrng instr 19 18 \<noteq> 3 \<and> bit_c instr 0 = 0 then set_addr_lin
         else set_undef_addr)
      else if ext = Mux arm_mux_msr_r_pr then arm_mux_msr_r_pr_case t instr
      else if ext = Mux arm_mux_mrs_r_pr then arm_mux_mrs_r_pr_case t instr
      else if ext = Mux arm_mux_msr_i_pr_hints then arm_mux_msr_i_pr_hints_case t instr
      else if ext = Mux arm_mux_vorr_vmov_nm then
        (if bit_c instr 16 = 0 \<and> bit_c instr 12 = 0 \<and> bit_c instr 0 = 0 then set_addr_lin
         else set_undef_addr)
      else if ext = Mux arm_mux_vst_type then arm_mux_vst_type_case t instr
      else if ext = Mux arm_mux_vld_type then arm_mux_vld_type_case t instr
      else set_undef_addr)"

definition arm_mux :: "target \<Rightarrow> u32 \<Rightarrow> ARM_decode_extra_t \<Rightarrow> instr_next_addr_t" where
  "arm_mux t instr ext =
     (let retval = arm_mux_switch t instr ext
      in if flag retval = INSTR_ADDR_ARM then
           (if \<not> will_branch t instr then set_addr_lin else retval)
         else retval)"

section \<open>Exception-class handler\<close>

definition arm_core_exc_rfe :: "target \<Rightarrow> u32 \<Rightarrow> instr_next_addr_t" where
  \<comment> \<open>\<^verbatim>\<open>case arm_exc_rfe\<close> outside Hyp mode. In the last test \<^verbatim>\<open>==\<close> binds tighter than
      \<^verbatim>\<open>&\<close>: \<^verbatim>\<open>cpsr & 0x01000020 == 0x01000020\<close> is \<^verbatim>\<open>cpsr & 1\<close>.\<close>
  "arm_core_exc_rfe t instr =
     (let tmp1 = bitrng instr 19 16;
          tmp2 = storage t (unat tmp1);
          pu = bits_c instr 0x01800000;
          tmp3 = (if pu = 0 then mem_read_u32 t (tmp2 - 4)
                  else if pu = 1 then mem_read_u32 t tmp2
                  else if pu = 2 then mem_read_u32 t (tmp2 - 4 - 8)
                  else if pu = 3 then mem_read_u32 t (tmp2 + 4 + 4)
                  else pu);
          retval = set_arm_addr tmp3
      in if check_proc_mode t INSTR_PMODE_USR 0 0 0 \<and> cpsr t AND 1 \<noteq> 0
         then set_unpred_addr retval else retval)"

definition arm_core_exc_srs :: "target \<Rightarrow> u32 \<Rightarrow> instr_next_addr_t" where
  \<comment> \<open>\<^verbatim>\<open>case arm_exc_srs\<close> outside Hyp mode\<close>
  "arm_core_exc_srs t instr =
     (if check_proc_mode t INSTR_PMODE_USR INSTR_PMODE_SYS 0 0 then set_unpred_addr set_addr_lin
      else if bitrng instr 4 0 = INSTR_PMODE_HYP then set_unpred_addr set_addr_lin
      else if check_proc_mode t INSTR_PMODE_MON 0 0 0 \<and> hw_security_state t = 0
        then set_unpred_addr set_addr_lin
      else if check_proc_mode t INSTR_PMODE_FIQ 0 0 0 \<and> hw_coproc_access t 16 \<noteq> 0
              \<and> hw_security_state t = 0
        then set_unpred_addr set_addr_lin
      else set_addr_lin)"

definition arm_core_exc :: "target \<Rightarrow> u32 \<Rightarrow> ARM_decode_extra_t \<Rightarrow> instr_next_addr_t" where
  "arm_core_exc t instr ext =
     (if ext = Exc arm_exc_eret then
        (if check_proc_mode t INSTR_PMODE_HYP 0 0 0
         then set_unpred_addr (set_arm_addr (hw_elr_hyp t))
         else if check_proc_mode t INSTR_PMODE_USR INSTR_PMODE_SYS 0 0 then set_undef_addr
         else set_arm_addr (storage t 14))
      else if ext = Exc arm_exc_bkpt then set_addr_lin
      else if ext = Exc arm_exc_hvc then
        (if hw_security_state t \<noteq> 0 then set_undef_addr
         else if check_proc_mode t INSTR_PMODE_USR 0 0 0 then set_undef_addr
         else if hw_SCR t AND push_bit 8 1 = 0 then
           (if check_proc_mode t INSTR_PMODE_USR 0 0 0 then set_addr_lin else set_undef_addr)
         else set_addr_lin)
      else if ext = Exc arm_exc_smc then
        (if check_proc_mode t INSTR_PMODE_USR 0 0 0 then set_undef_addr
         else if hw_HCR t AND push_bit 19 1 \<noteq> 0 \<and> hw_security_state t = 0 then set_addr_lin
         else if hw_SCR t AND push_bit 7 1 \<noteq> 0 then
           (if hw_security_state t = 0 then set_undef_addr else set_addr_lin)
         else set_addr_lin)
      else if ext = Exc arm_exc_svc then
        (if hw_HCR t AND push_bit 27 1 \<noteq> 0 then
           (if hw_security_state t = 0 \<and> check_proc_mode t INSTR_PMODE_USR 0 0 0
            then set_addr_lin else set_addr_lin)
         else set_addr_lin)
      else if ext = Exc arm_exc_udf then set_undef_addr
      else if ext = Exc arm_exc_rfe then
        (if check_proc_mode t INSTR_PMODE_HYP 0 0 0 then set_undef_addr
         else arm_core_exc_rfe t instr)
      else if ext = Exc arm_exc_srs then
        (if check_proc_mode t INSTR_PMODE_HYP 0 0 0 then set_undef_addr
         else arm_core_exc_srs t instr)
      else set_undef_addr)"

section \<open>Further helpers of \<^verbatim>\<open>instr_util\<close>\<close>



definition instr_util_shgetlo :: "u32 \<Rightarrow> u32" where
  \<comment> \<open>Modelled from the spec: \<^verbatim>\<open>instr_util_shgetlo\<close>, not in this file: the low halfword
      lane as a signed value.\<close>
  "instr_util_shgetlo x = signed_take_bit 15 x"

definition instr_util_shgethi :: "u32 \<Rightarrow> u32" where
  \<comment> \<open>Modelled from the spec: \<^verbatim>\<open>instr_util_shgethi\<close>, not in this file: the high halfword
      lane as a signed value.\<close>
  "instr_util_shgethi x = signed_take_bit 15 (drop_bit 16 x)"

definition instr_util_ustuffs16 :: "u32 \<Rightarrow> u32 \<Rightarrow> u32" where
  \<comment> \<open>Modelled from the spec: \<^verbatim>\<open>instr_util_ustuffs16(hi, lo)\<close>, not in this file: two
      halfword lanes packed into a word.\<close>
  "instr_util_ustuffs16 hi lo = push_bit 16 (hi AND 0xffff) OR (lo AND 0xffff)"

definition instr_util_ustuffu16 :: "u32 \<Rightarrow> u32 \<Rightarrow> u32" where
  \<comment> \<open>Modelled from the spec: \<^verbatim>\<open>instr_util_ustuffu16(hi, lo)\<close>, not in this file: two
      halfword lanes packed into a word.\<close>
  "instr_util_ustuffu16 hi lo = push_bit 16 (hi AND 0xffff) OR (lo AND 0xffff)"






definition instr_util_rorb :: "u32 \<Rightarrow> u32 \<Rightarrow> u32" where
  \<comment> \<open>Modelled from the spec: \<^verbatim>\<open>instr_util_rorb(value, n)\<close>, not in this file:
      "rotate-right-by-byte", by \<open>n\<close> bytes.\<close>
  "instr_util_rorb v n = word_rotr (8 * nat (sint n)) v"


section \<open>Data-processing handler, register-shifted register operand\<close>




section \<open>Data-processing handler, immediate operand\<close>





section \<open>Multiply handler with 64-bit result\<close>



section \<open>Miscellaneous data-processing handler\<close>







section \<open>Pack and extend handler\<close>

definition arm_core_data_pack_pkh :: "target \<Rightarrow> u32 \<Rightarrow> instr_next_addr_t" where
  \<comment> \<open>the Rd = PC branch of the \<^verbatim>\<open>arm_pack_pkh\<close> case\<close>
  "arm_core_data_pack_pkh t instr =
     (let rm = bitrng instr 3 0;
          tmp1 = storage t (unat rm) + (if rm = 15 then 8 else 0);
          tmp2 = bitrng instr 11 7;
          rn = bitrng instr 19 16;
          tmp3 = storage t (unat rn) + (if rn = 15 then 8 else 0);
          tmp4 = (if bit_c instr 6 \<noteq> 0
                  then (tmp3 AND 0xffff0000) OR (signed_drop_bit (unat tmp2) tmp1 AND 0xffff)
                  else (push_bit (unat tmp2) tmp1 AND 0xffff0000) OR (tmp3 AND 0xffff))
      in set_unpred_addr (set_arm_addr tmp4))"

definition arm_core_data_pack_ext :: "target \<Rightarrow> u32 \<Rightarrow> instr_next_addr_t" where
  \<comment> \<open>the Rd = PC branch of the twelve extend cases; the rotation count passed to
      \<^verbatim>\<open>instr_util_rorb\<close> is bits 3-0, the mask \<^verbatim>\<open>tmp2\<close> stays unassigned when bits 21-20
      are 01, and the signed add of the non-dual forms goes to \<^verbatim>\<open>stmp1\<close>, which is not
      read again\<close>
  "arm_core_data_pack_ext t instr =
     (let rm = bitrng instr 3 0;
          tmp1 = instr_util_rorb (storage t (unat rm) + (if rm = 15 then 8 else 0))
                   (bitrng instr 3 0);
          sel = bitrng instr 21 20;
          tmp2 = (if sel = 0 then 0xff00ff00
                  else if sel = 2 then push_bit 8 (NOT 0)
                  else if sel = 3 then push_bit 16 (NOT 0)
                  else tmp2_uninit t);
          sgn = (if bit_c instr 22 \<noteq> 0 then
                   (if sel = 0 then
                      (if bit_c tmp1 23 \<noteq> 0 then 0xff000000 else 0)
                        OR (if bit_c tmp1 7 \<noteq> 0 then 0x0000ff00 else 0)
                    else if (tmp1 AND NOT tmp2) AND drop_bit 1 tmp2 \<noteq> 0 then tmp2
                    else 0)
                 else 0);
          tmp3 = sgn OR (tmp1 AND NOT tmp2);
          rn = bitrng instr 19 16;
          vn = storage t (unat rn);
          tmp3' =
            (if rn \<noteq> 15 then
               (if bit_c instr 22 \<noteq> 0 then
                  (if sel = 0 then
                     instr_util_ustuffs16
                       (instr_util_shgethi vn + instr_util_shgethi tmp3)
                       (instr_util_shgetlo vn + instr_util_shgetlo tmp3)
                   else tmp3)
                else
                  (if sel = 0 then
                     instr_util_ustuffu16
                       (bitrng vn 31 16 + bitrng tmp3 31 16)
                       (bitrng vn 15 0 + bitrng tmp3 15 0)
                   else tmp3 + vn))
             else tmp3)
      in set_unpred_addr (set_arm_addr tmp3'))"

definition arm_core_data_pack ::
  "target \<Rightarrow> u32 \<Rightarrow> ARM_decode_extra_t \<Rightarrow> instr_next_addr_t" where
  "arm_core_data_pack t instr ext =
     (case ext of
        Pack p \<Rightarrow>
          (if p = arm_pack_pkh then
             (if bitrng instr 15 12 = 15 then arm_core_data_pack_pkh t instr else set_addr_lin)
           else
             (if bitrng instr 15 12 = 15 then arm_core_data_pack_ext t instr else set_addr_lin))
      | _ \<Rightarrow> set_undef_addr)"

section \<open>Parallel add and subtract handler\<close>



section \<open>Saturating arithmetic handler\<close>




section \<open>Load/store multiple handler\<close>








section \<open>Doubleword load/store handler\<close>






section \<open>Exclusive load/store handler\<close>



section \<open>Halfword and signed byte load/store handlers\<close>









section \<open>Auxiliary predicates\<close>

definition undef_is_plain :: "instr_next_addr_t \<Rightarrow> bool" where
  \<comment> \<open>an outcome that, if it is UNDEFINED, is the one \<^verbatim>\<open>set_undef_addr()\<close> builds\<close>
  "undef_is_plain r \<longleftrightarrow> (flag r = INSTR_ADDR_UNDEF \<longrightarrow> r = set_undef_addr)"


section \<open>Example inputs\<close>

text \<open>
  Concrete register files, target states and a three-entry decode table, on which the
  properties below are evaluated. A register list gives r0, r1, ... in order; registers
  beyond the list are 0.
\<close>

definition example_regs :: "u32 list \<Rightarrow> nat \<Rightarrow> u32" where
  "example_regs xs i = (if i < length xs then xs ! i else 0)"

definition example_target :: "u32 list \<Rightarrow> u32 \<Rightarrow> target" where
  "example_target xs c =
     \<lparr>storage = example_regs xs, cpsr = c, spsr = 0, mem = (\<lambda>a. 0), hw_SCR = 0, hw_HCR = 0,
      hw_elr_hyp = 0, hw_security_state = 0, hw_coproc_access = (\<lambda>n. 0), tmp3_uninit = 0,
      tmp2_uninit = 0, tmp4_uninit = 0\<rparr>"

definition example_table :: "ARM_dec_tbl_entry_t list" where
  "example_table =
     [\<lparr>data = 0x012FFF10, mask_c = 0x0FFFFFF0, extra = Bra arm_bra_bx_r, decoder = arm_branch\<rparr>,
      \<lparr>data = 0x0A000000, mask_c = 0x0F000000, extra = Bra arm_bra_b_lbl, decoder = arm_branch\<rparr>,
      \<lparr>data = 0x08000000, mask_c = 0x0C000000, extra = Exc arm_exc_udf, decoder = arm_core_exc\<rparr>]"

section \<open>Properties of the dispatcher\<close>

lemma dispatch_loop_skip:
  "i \<le> k \<Longrightarrow> \<forall>j. i \<le> j \<and> j < k \<longrightarrow> instr AND mask_c (tbl ! j) \<noteq> data (tbl ! j) \<Longrightarrow>
   k \<le> length tbl \<Longrightarrow>
   ARM_decoder_dispatch_loop tbl t instr i r = ARM_decoder_dispatch_loop tbl t instr k r"
proof (induction "k - i" arbitrary: i)
  case 0
  then show ?case by simp
next
  case (Suc n)
  then have lt: "i < k" by linarith
  with Suc.prems have nm: "instr AND mask_c (tbl ! i) \<noteq> data (tbl ! i)" and il: "i < length tbl"
    by auto
  have "ARM_decoder_dispatch_loop tbl t instr i r = ARM_decoder_dispatch_loop tbl t instr (i + 1) r"
    using nm il by (subst ARM_decoder_dispatch_loop.simps) simp
  also have "\<dots> = ARM_decoder_dispatch_loop tbl t instr k r"
    using Suc.hyps Suc.prems lt by (intro Suc.hyps(1)) auto
  finally show ?case .
qed

text \<open>
  C3. For every 32-bit instruction word, the dispatcher returns the result of the handler
  of the first decode-table entry, in table order, whose mask/fixed-bits pattern matches:
  if entry \<open>k\<close> matches and none of the \<open>k\<close> entries before it does, the result is
  that of the decoder of entry \<open>k\<close>, called with the instruction and the entry's sub-type
  tag. If no entry matches, the result is the UNDEFINED outcome.
\<close>

theorem dispatch_first_match:
  "(k < length tbl \<and> instr AND mask_c (tbl ! k) = data (tbl ! k)
      \<and> (\<forall>e \<in> set (take k tbl). instr AND mask_c e \<noteq> data e)
    \<longrightarrow> ARM_decoder_dispatch tbl t instr = decoder (tbl ! k) t instr (extra (tbl ! k)))
   \<and> ((\<forall>e \<in> set tbl. instr AND mask_c e \<noteq> data e)
    \<longrightarrow> ARM_decoder_dispatch tbl t instr = set_undef_addr)"
proof (intro conjI impI)
  assume h: "k < length tbl \<and> instr AND mask_c (tbl ! k) = data (tbl ! k)
      \<and> (\<forall>e \<in> set (take k tbl). instr AND mask_c e \<noteq> data e)"
  have "\<forall>j. 0 \<le> j \<and> j < k \<longrightarrow> instr AND mask_c (tbl ! j) \<noteq> data (tbl ! j)"
  proof (intro allI impI)
    fix j assume "0 \<le> j \<and> j < k"
    with h have "tbl ! j \<in> set (take k tbl)"
      by (metis in_set_conv_nth length_take min_less_iff_conj nth_take order_less_trans)
    with h show "instr AND mask_c (tbl ! j) \<noteq> data (tbl ! j)" by blast
  qed
  with h have "ARM_decoder_dispatch_loop tbl t instr 0 set_undef_addr
      = ARM_decoder_dispatch_loop tbl t instr k set_undef_addr"
    by (intro dispatch_loop_skip) auto
  also have "\<dots> = decoder (tbl ! k) t instr (extra (tbl ! k))"
    using h by (subst ARM_decoder_dispatch_loop.simps) simp
  finally show "ARM_decoder_dispatch tbl t instr = decoder (tbl ! k) t instr (extra (tbl ! k))"
    by (simp add: ARM_decoder_dispatch_def)
next
  assume h: "\<forall>e \<in> set tbl. instr AND mask_c e \<noteq> data e"
  then have "ARM_decoder_dispatch_loop tbl t instr 0 set_undef_addr
      = ARM_decoder_dispatch_loop tbl t instr (length tbl) set_undef_addr"
    by (intro dispatch_loop_skip) auto
  also have "\<dots> = set_undef_addr"
    by (subst ARM_decoder_dispatch_loop.simps) simp
  finally show "ARM_decoder_dispatch tbl t instr = set_undef_addr"
    by (simp add: ARM_decoder_dispatch_def)
qed

lemma example_branch_b:
  "arm_branch (example_target [0, 0, 0, 0, 0, 0, 0, 0, 0, 0, 0, 0, 0, 0, 0, 0x8000] 0) 0xEA000001
     (Bra arm_bra_b_lbl) = set_arm_addr 0x800C"
  by (simp add: example_target_def example_regs_def arm_branch_def
        will_branch_def bitrng_def sx32_def set_arm_addr_def)

theorem dispatch_first_match_witness:
  "ARM_decoder_dispatch example_table
     (example_target [0, 0, 0, 0, 0, 0, 0, 0, 0, 0, 0, 0, 0, 0, 0, 0x8000] 0) 0xEA000001
     = set_arm_addr 0x800C
   \<and> ARM_decoder_dispatch example_table (example_target [] 0) 0xE7F000F0 = set_undef_addr"
proof -
  have a: "ARM_decoder_dispatch example_table
     (example_target [0, 0, 0, 0, 0, 0, 0, 0, 0, 0, 0, 0, 0, 0, 0, 0x8000] 0) 0xEA000001
     = arm_branch (example_target [0, 0, 0, 0, 0, 0, 0, 0, 0, 0, 0, 0, 0, 0, 0, 0x8000] 0)
         0xEA000001 (Bra arm_bra_b_lbl)"
    using dispatch_first_match [of 1 example_table "0xEA000001"
        "example_target [0, 0, 0, 0, 0, 0, 0, 0, 0, 0, 0, 0, 0, 0, 0, 0x8000] 0"]
    by (simp add: example_table_def)
  have b: "ARM_decoder_dispatch example_table (example_target [] 0) 0xE7F000F0 = set_undef_addr"
    using dispatch_first_match [of 0 example_table "0xE7F000F0" "example_target [] 0"]
    by (simp add: example_table_def)
  from a b example_branch_b show ?thesis by simp
qed


section \<open>Properties of the branch handler\<close>

lemmas outcome_defs =
  set_addr_lin_def set_undef_addr_def set_arm_addr_def set_thumb_addr_def set_unpred_addr_def

text \<open>
  C6. For every branch-exchange instruction in register form (BX, BLX, BXJ) whose
  condition holds, the target is the value of the register indexed by bits 3-0 (no
  offset is added for the program counter). If bit 0 of the value is set, the state is
  THUMB and bit 0 of the address is cleared; else if bit 1 is clear, the state is ARM
  and bits 1:0 are cleared; any other value gives the linear sentinel, as ARM, flagged
  unpredictable. The unpredictable flag is set whenever the index register is the
  program counter.
\<close>

theorem arm_branch_bx_register:
  assumes "ext = Bra arm_bra_bx_r \<or> ext = Bra arm_bra_blx_r \<or> ext = Bra arm_bra_bxj_r"
    and "will_branch t instr"
  shows "arm_branch t instr ext =
    (if bit (storage t (unat (bitrng instr 3 0))) 0 then
       \<lparr>flag = INSTR_ADDR_THUMB, unpred = (bitrng instr 3 0 = 15),
        address = storage t (unat (bitrng instr 3 0)) AND NOT 1\<rparr>
     else if \<not> bit (storage t (unat (bitrng instr 3 0))) 1 then
       \<lparr>flag = INSTR_ADDR_ARM, unpred = (bitrng instr 3 0 = 15),
        address = storage t (unat (bitrng instr 3 0)) AND NOT 3\<rparr>
     else \<lparr>flag = INSTR_ADDR_ARM, unpred = True, address = 0xffffffff\<rparr>)"
proof -
  have m1: "push_bit 1 (NOT 0) = (NOT 1 :: u32)"
    by simp
  have m2: "push_bit 2 (NOT 0) = (NOT 3 :: u32)"
    by (simp add: not_eq_complement mask_eq_exp_minus_1)
  from assms show ?thesis
    unfolding arm_branch_def Let_def m1 m2
    by (auto simp add: bit_c_def outcome_defs)
qed

theorem arm_branch_bx_register_witness:
  "arm_branch (example_target [0, 0, 0, 0, 0, 0, 0, 0, 0, 0, 0, 0, 0, 0, 0x1001] 0) 0xE12FFF1E
     (Bra arm_bra_bx_r) = \<lparr>flag = INSTR_ADDR_THUMB, unpred = False, address = 0x1000\<rparr>"
  using arm_branch_bx_register [of "Bra arm_bra_bx_r"
      "example_target [0, 0, 0, 0, 0, 0, 0, 0, 0, 0, 0, 0, 0, 0, 0x1001] 0" "0xE12FFF1E"]
  by (simp add: will_branch_def bitrng_def example_target_def example_regs_def)

section \<open>Properties of the multiplexer\<close>

lemma flag_set_addr_lin: "flag set_addr_lin = INSTR_ADDR_ARM"
  by (simp add: set_addr_lin_def)

lemma flag_set_undef_addr: "flag set_undef_addr = INSTR_ADDR_UNDEF"
  by (simp add: set_undef_addr_def)

lemma undef_is_plain_builders:
  "undef_is_plain set_addr_lin" "undef_is_plain set_undef_addr"
  by (simp_all add: undef_is_plain_def flag_set_addr_lin)

lemma arm_vfp_ldst_elem_undef: "arm_vfp_ldst_elem t instr ext = set_undef_addr"
  by (simp add: arm_vfp_ldst_elem_def)

lemma arm_core_data_bit_ret_plain: "undef_is_plain (arm_core_data_bit_ret t instr tmp3)"
  by (simp add: arm_core_data_bit_ret_def undef_is_plain_def Let_def outcome_defs)

lemma arm_core_data_bit_reg_plain: "undef_is_plain (arm_core_data_bit_reg instr tmp3)"
  by (simp add: arm_core_data_bit_reg_def undef_is_plain_def outcome_defs)

lemma arm_core_data_bit_plain: "undef_is_plain (arm_core_data_bit t instr ext)"
  by (simp add: arm_core_data_bit_def Let_def arm_core_data_bit_ret_plain
      arm_core_data_bit_reg_plain undef_is_plain_builders)

lemma arm_core_data_bit_cdata_imm:
  "ext = Cdata arm_cdata_mov_r \<or> ext = Cdata arm_cdata_lsl_imm \<or> ext = Cdata arm_cdata_rrx_r
     \<or> ext = Cdata arm_cdata_ror_imm \<Longrightarrow> arm_core_data_bit t instr ext = set_addr_lin"
  by (elim disjE) (simp_all add: arm_core_data_bit_def)

lemma arm_mux_lsl_i_mov_case_plain: "undef_is_plain (arm_mux_lsl_i_mov_case t instr ext)"
  by (simp add: arm_mux_lsl_i_mov_case_def arm_core_data_bit_plain)

lemma arm_mux_lsl_i_mov_case_lin:
  "ext = Mux arm_mux_lsl_i_mov \<or> (ext = Mux arm_mux_lsl_i_mov_pc \<and> bit_c instr 20 = 0) \<Longrightarrow>
   arm_mux_lsl_i_mov_case t instr ext = set_addr_lin"
  by (auto simp add: arm_mux_lsl_i_mov_case_def arm_core_data_bit_cdata_imm)

lemma arm_mux_vorr_i_vmov_i_case_cases:
  "arm_mux_vorr_i_vmov_i_case instr = set_addr_lin
   \<or> arm_mux_vorr_i_vmov_i_case instr = set_undef_addr"
  by (simp add: arm_mux_vorr_i_vmov_i_case_def)

lemma arm_mux_msr_r_pr_case_arm: "flag (arm_mux_msr_r_pr_case t instr) = INSTR_ADDR_ARM"
  by (simp add: arm_mux_msr_r_pr_case_def Let_def outcome_defs)

lemma arm_mux_mrs_r_pr_case_arm: "flag (arm_mux_mrs_r_pr_case t instr) = INSTR_ADDR_ARM"
  by (simp add: arm_mux_mrs_r_pr_case_def Let_def outcome_defs)

lemma arm_mux_msr_i_pr_hints_case_cases:
  "flag (arm_mux_msr_i_pr_hints_case t instr) = INSTR_ADDR_ARM
   \<or> arm_mux_msr_i_pr_hints_case t instr = set_undef_addr"
  by (simp add: arm_mux_msr_i_pr_hints_case_def Let_def outcome_defs)

lemma arm_mux_vst_type_case_undef: "arm_mux_vst_type_case t instr = set_undef_addr"
  by (simp add: arm_mux_vst_type_case_def Let_def arm_vfp_ldst_elem_undef)

lemma arm_mux_vld_type_case_undef: "arm_mux_vld_type_case t instr = set_undef_addr"
  by (simp add: arm_mux_vld_type_case_def Let_def arm_vfp_ldst_elem_undef)

lemma undef_is_plain_cases:
  "undef_is_plain (arm_mux_vorr_i_vmov_i_case instr)"
  "undef_is_plain (arm_mux_msr_r_pr_case t instr)"
  "undef_is_plain (arm_mux_mrs_r_pr_case t instr)"
  "undef_is_plain (arm_mux_msr_i_pr_hints_case t instr)"
  "undef_is_plain (arm_mux_vst_type_case t instr)"
  "undef_is_plain (arm_mux_vld_type_case t instr)"
  using arm_mux_vorr_i_vmov_i_case_cases [of instr] arm_mux_msr_i_pr_hints_case_cases [of t instr]
  by (auto simp add: undef_is_plain_def flag_set_addr_lin arm_mux_msr_r_pr_case_arm
      arm_mux_mrs_r_pr_case_arm arm_mux_vst_type_case_undef arm_mux_vld_type_case_undef)

lemma arm_mux_switch_undef:
  assumes "flag (arm_mux_switch t instr ext) = INSTR_ADDR_UNDEF"
  shows "arm_mux_switch t instr ext = set_undef_addr"
proof -
  have "undef_is_plain (arm_mux_switch t instr ext)"
    unfolding arm_mux_switch_def
    by (simp add: undef_is_plain_builders undef_is_plain_cases arm_core_data_bit_plain
        arm_mux_lsl_i_mov_case_plain)
  with assms show ?thesis
    by (simp add: undef_is_plain_def)
qed

lemma not_thumb_cases:
  "flag set_addr_lin \<noteq> INSTR_ADDR_THUMB" "flag set_undef_addr \<noteq> INSTR_ADDR_THUMB"
  "flag (arm_core_data_bit t instr (Cdata arm_cdata_rrx_r)) \<noteq> INSTR_ADDR_THUMB"
  "flag (arm_core_data_bit t instr (Cdata arm_cdata_ror_imm)) \<noteq> INSTR_ADDR_THUMB"
  "flag (arm_mux_vorr_i_vmov_i_case instr) \<noteq> INSTR_ADDR_THUMB"
  "flag (arm_mux_msr_r_pr_case t instr) \<noteq> INSTR_ADDR_THUMB"
  "flag (arm_mux_mrs_r_pr_case t instr) \<noteq> INSTR_ADDR_THUMB"
  "flag (arm_mux_msr_i_pr_hints_case t instr) \<noteq> INSTR_ADDR_THUMB"
  "flag (arm_mux_vst_type_case t instr) \<noteq> INSTR_ADDR_THUMB"
  "flag (arm_mux_vld_type_case t instr) \<noteq> INSTR_ADDR_THUMB"
  using arm_mux_vorr_i_vmov_i_case_cases [of instr] arm_mux_msr_i_pr_hints_case_cases [of t instr]
  by (auto simp add: flag_set_addr_lin flag_set_undef_addr arm_core_data_bit_cdata_imm
      arm_mux_msr_r_pr_case_arm arm_mux_mrs_r_pr_case_arm
      arm_mux_vst_type_case_undef arm_mux_vld_type_case_undef)

lemma arm_mux_switch_not_thumb:
  assumes "ext \<noteq> Mux arm_mux_lsl_i_mov_pc \<or> bit_c instr 20 = 0"
  shows "flag (arm_mux_switch t instr ext) \<noteq> INSTR_ADDR_THUMB"
proof (cases "ext = Mux arm_mux_lsl_i_mov \<or> ext = Mux arm_mux_lsl_i_mov_pc")
  case True
  with assms have "arm_mux_lsl_i_mov_case t instr ext = set_addr_lin"
    by (intro arm_mux_lsl_i_mov_case_lin) auto
  with True show ?thesis
    by (auto simp add: arm_mux_switch_def flag_set_addr_lin)
next
  case False
  then show ?thesis
    unfolding arm_mux_switch_def by (simp add: not_thumb_cases)
qed

text \<open>
  C1, as stated: for every instruction that reaches \<^verbatim>\<open>arm_mux\<close> and whose condition is
  not satisfied, the outcome is the linear sentinel, whatever the sub-type. It fails:
  the condition check is applied only to ARM-state outcomes. A hint instruction with
  the unallocated hint number 5 and condition EQ, with the Z flag clear, is resolved to
  UNDEFINED by the sub-case switch and stays UNDEFINED.
\<close>

theorem arm_mux_condition_gate_counterexample:
  "\<not> will_branch (example_target [] 0) 0x0320F005
   \<and> arm_mux (example_target [] 0) 0x0320F005 (Mux arm_mux_msr_i_pr_hints)
      = \<lparr>flag = INSTR_ADDR_UNDEF, unpred = False, address = 0xffffffff\<rparr>"
  by (simp add: will_branch_def arm_mux_def arm_mux_switch_def arm_mux_msr_i_pr_hints_case_def
      bitrng_def example_target_def outcome_defs)

text \<open>
  C1, amended. For every instruction that reaches \<^verbatim>\<open>arm_mux\<close> and whose condition is
  not satisfied: when the sub-case switch resolved to an ARM-state outcome (a computed
  address or the sentinel, flagged unpredictable or not), the returned outcome is the
  plain linear sentinel; when it resolved to UNDEFINED, the returned outcome is
  UNDEFINED, unchanged. Every sub-type other than the exception-return forms of
  MOV/LSL to the program counter (\<^verbatim>\<open>arm_mux_lsl_i_mov_pc\<close> with the S bit set) resolves
  to one of these two, so its outcome is the linear sentinel or UNDEFINED. The check is
  the single test after the switch.
\<close>

theorem arm_mux_condition_gate:
  assumes "\<not> will_branch t instr"
  shows "(flag (arm_mux_switch t instr ext) = INSTR_ADDR_ARM \<longrightarrow>
            arm_mux t instr ext = set_addr_lin)
    \<and> (flag (arm_mux_switch t instr ext) = INSTR_ADDR_UNDEF \<longrightarrow>
            arm_mux t instr ext = set_undef_addr)
    \<and> (ext \<noteq> Mux arm_mux_lsl_i_mov_pc \<or> bit_c instr 20 = 0 \<longrightarrow>
            arm_mux t instr ext = set_addr_lin \<or> arm_mux t instr ext = set_undef_addr)"
proof (intro conjI impI)
  show "arm_mux t instr ext = set_addr_lin"
    if "flag (arm_mux_switch t instr ext) = INSTR_ADDR_ARM"
    using that assms by (simp add: arm_mux_def)
  show "arm_mux t instr ext = set_undef_addr"
    if "flag (arm_mux_switch t instr ext) = INSTR_ADDR_UNDEF"
    using that arm_mux_switch_undef [OF that] by (simp add: arm_mux_def)
  show "arm_mux t instr ext = set_addr_lin \<or> arm_mux t instr ext = set_undef_addr"
    if h: "ext \<noteq> Mux arm_mux_lsl_i_mov_pc \<or> bit_c instr 20 = 0"
  proof (cases "flag (arm_mux_switch t instr ext)")
    case INSTR_ADDR_UNDEF
    then show ?thesis
      using arm_mux_switch_undef [of t instr ext] by (simp add: arm_mux_def)
  next
    case INSTR_ADDR_ARM
    then show ?thesis
      using assms by (simp add: arm_mux_def)
  next
    case INSTR_ADDR_THUMB
    then show ?thesis
      using arm_mux_switch_not_thumb [OF h] by simp
  qed
qed

theorem arm_mux_condition_gate_witness:
  "\<not> will_branch (example_target [] 0x13) 0x010F0F00
   \<and> arm_mux_switch (example_target [] 0x13) 0x010F0F00 (Mux arm_mux_mrs_r_pr)
       = \<lparr>flag = INSTR_ADDR_ARM, unpred = True, address = 0x13\<rparr>
   \<and> arm_mux (example_target [] 0x13) 0x010F0F00 (Mux arm_mux_mrs_r_pr) = set_addr_lin
   \<and> \<not> will_branch (example_target [] 0) 0x0320F005
   \<and> arm_mux (example_target [] 0) 0x0320F005 (Mux arm_mux_msr_i_pr_hints) = set_undef_addr"
proof -
  have n1: "\<not> will_branch (example_target [] 0x13) 0x010F0F00"
    by (simp add: will_branch_def bitrng_def example_target_def)
  have s1: "arm_mux_switch (example_target [] 0x13) 0x010F0F00 (Mux arm_mux_mrs_r_pr)
       = \<lparr>flag = INSTR_ADDR_ARM, unpred = True, address = 0x13\<rparr>"
    by (simp add: arm_mux_switch_def arm_mux_mrs_r_pr_case_def bitrng_def bit_c_def
        example_target_def outcome_defs)
  have n2: "\<not> will_branch (example_target [] 0) 0x0320F005"
    by (simp add: will_branch_def bitrng_def example_target_def)
  have s2: "arm_mux_switch (example_target [] 0) 0x0320F005 (Mux arm_mux_msr_i_pr_hints)
       = set_undef_addr"
    by (simp add: arm_mux_switch_def arm_mux_msr_i_pr_hints_case_def bitrng_def
        example_target_def outcome_defs)
  from arm_mux_condition_gate [OF n1, of "Mux arm_mux_mrs_r_pr"]
       arm_mux_condition_gate [OF n2, of "Mux arm_mux_msr_i_pr_hints"] n1 n2 s1 s2
  show ?thesis
    by (simp add: set_undef_addr_def)
qed

text \<open>
  C9. In the multiplexed WFE/WFI encoding (\<^verbatim>\<open>arm_mux_wfe_wfi\<close>) the multiplexer resolves
  to the linear outcome only when bits 7-0 of the instruction equal 2 (WFE); for every
  other value of bits 7-0, the WFI hint 3 among them, it resolves to UNDEFINED. This is
  the outcome of the sub-case switch, and the condition check leaves it as it is.
\<close>

theorem arm_mux_wfe_wfi:
  "(bitrng instr 7 0 = 2 \<longrightarrow>
      arm_mux_switch t instr (Mux arm_mux_wfe_wfi) = set_addr_lin
      \<and> arm_mux t instr (Mux arm_mux_wfe_wfi) = set_addr_lin)
   \<and> (bitrng instr 7 0 \<noteq> 2 \<longrightarrow>
      arm_mux_switch t instr (Mux arm_mux_wfe_wfi) = set_undef_addr
      \<and> arm_mux t instr (Mux arm_mux_wfe_wfi) = set_undef_addr)"
  by (simp add: arm_mux_def arm_mux_switch_def outcome_defs)

theorem arm_mux_wfe_wfi_witness:
  "bitrng 0xE320F002 7 0 = 2 \<and> bitrng 0xE320F003 7 0 = 3
   \<and> arm_mux (example_target [] 0) 0xE320F002 (Mux arm_mux_wfe_wfi) = set_addr_lin
   \<and> arm_mux (example_target [] 0) 0xE320F003 (Mux arm_mux_wfe_wfi) = set_undef_addr"
  using arm_mux_wfe_wfi [of "0xE320F002" "example_target [] 0"]
    arm_mux_wfe_wfi [of "0xE320F003" "example_target [] 0"]
  by (simp add: bitrng_def)

text \<open>
  C5, evaluated on the code. \<^verbatim>\<open>MOV PC, LR\<close> (0xE1A0F00E: register-operand move,
  destination PC, S bit clear, condition AL) with LR = 0x1001 reaches the multiplexer as
  \<^verbatim>\<open>arm_mux_lsl_i_mov_pc\<close>. The multiplexer forwards it to \<^verbatim>\<open>arm_core_data_bit\<close> with
  the tag \<^verbatim>\<open>arm_cdata_mov_r\<close>, whose second switch has no case for that tag and returns
  the linear sentinel: the outcome is ARM state, address 0xffffffff, not THUMB at 0x1000.
\<close>

theorem mov_pc_lr_is_linear:
  "arm_mux (example_target [0, 0, 0, 0, 0, 0, 0, 0, 0, 0, 0, 0, 0, 0, 0x1001] 0) 0xE1A0F00E
     (Mux arm_mux_lsl_i_mov_pc)
     = \<lparr>flag = INSTR_ADDR_ARM, unpred = False, address = 0xffffffff\<rparr>"
  by (simp add: arm_mux_def arm_mux_switch_def arm_mux_lsl_i_mov_case_def arm_core_data_bit_def
      bitrng_def bit_c_def outcome_defs)

section \<open>Properties of the exception-class handler\<close>

text \<open>
  C10. For every BKPT instruction, whatever the processor mode and the security state,
  the handler returns the linear sentinel with the unpredictable flag clear; it never
  returns the prefetch-abort vector address.
\<close>

theorem arm_core_exc_bkpt:
  "arm_core_exc t instr (Exc arm_exc_bkpt)
     = \<lparr>flag = INSTR_ADDR_ARM, unpred = False, address = 0xffffffff\<rparr>"
  by (simp add: arm_core_exc_def set_addr_lin_def)

text \<open>
  The HVC outcome is read from the security state and the SCR, which the helpers
  \<^verbatim>\<open>get_security_state()\<close> and \<^verbatim>\<open>get_SCR()\<close> supply: two target states with the same
  registers, status words and memory give different outcomes.
\<close>

lemma arm_core_exc_hvc_reads_security_state:
  "arm_core_exc ((example_target [] 0x13)\<lparr>hw_SCR := 0x100\<rparr>) 0xE1400070 (Exc arm_exc_hvc)
     = set_addr_lin
   \<and> arm_core_exc ((example_target [] 0x13)\<lparr>hw_SCR := 0x100, hw_security_state := 1\<rparr>)
        0xE1400070 (Exc arm_exc_hvc) = set_undef_addr"
  by (simp add: arm_core_exc_def check_proc_mode_def INSTR_PMODE_USR_def example_target_def)

section \<open>Properties of the data-processing, multiply, divide and load handlers\<close>







subsection \<open>The gate of each handler\<close>

















subsection \<open>The gate on the program counter\<close>




text \<open>
  C4, evaluated on the code. \<^verbatim>\<open>ORR PC, r0, r1\<close> (0xE180F001, condition AL) with
  r0 = 0x100 and r1 = 0x200: the inclusive OR of the operands is 0x300, and the case
  \<^verbatim>\<open>arm_cdata_orr_r\<close> of the handler returns the address 0, the AND of the operands.
\<close>

theorem orr_r_computes_and:
  "arm_core_data_std_r (example_target [0x100, 0x200] 0) 0xE180F001 (Cdata arm_cdata_orr_r)
     = \<lparr>flag = INSTR_ADDR_ARM, unpred = False, address = 0\<rparr>
   \<and> example_regs [0x100, 0x200] 0 OR example_regs [0x100, 0x200] 1 = 0x300"
  by (simp add: arm_core_data_std_r_def arm_core_data_std_r_operands_def
      arm_core_data_std_r_alu_def arm_core_data_std_r_ret_def bitrng_def bit_c_def
      example_target_def example_regs_def outcome_defs)

text \<open>
  C7, evaluated on the code. \<^verbatim>\<open>SDIV PC, r0, r1\<close> (0xE71FF110, condition AL) with the
  divisor r1 = 0: the handler returns address 0 in ARM state, and the unpredictable
  flag is clear.
\<close>

theorem sdiv_by_zero_not_flagged:
  "arm_core_data_div (example_target [7, 0] 0) 0xE71FF110 (Div arm_div_sdiv)
     = \<lparr>flag = INSTR_ADDR_ARM, unpred = False, address = 0\<rparr>"
  by (simp add: arm_core_data_div_def arm_core_data_div_sdiv_def bitrng_def
      example_target_def example_regs_def outcome_defs)

end
